theory Spec2Isabelle
  imports Complex_Main
begin

section \<open>Twitch EventSub webhook handler: data model\<close>

text \<open>
  The repository holds two variants of the webhook handler: \<^verbatim>\<open>src/webhook_handler.ts\<close>
  and a second, unnamed copy (\<^verbatim>\<open>unnamed/part_000\<close>). They differ in two places: the
  unnamed copy has a \<^verbatim>\<open>"revocation"\<close> case in the message-type switch and its
  \<^verbatim>\<open>verifyMessage\<close> has no \<^verbatim>\<open>try/catch\<close>. Both are embedded; the definitions taken from
  the unnamed copy carry the suffix \<open>_part000\<close>.

  Strings are modelled as their UTF-8 byte sequences (\<open>string\<close> is \<open>char list\<close>), so that
  \<^verbatim>\<open>Buffer.from(s)\<close> is the string itself. A character is a non-empty sequence of bytes:
  one byte for an ASCII character, more for any other.
\<close>

text \<open>A value produced by \<^verbatim>\<open>JSON.parse\<close>. A number is given by its value (JSON text has no NaN).\<close>

datatype json =
    JNull
  | JBool bool
  | JNum rat
  | JStr string
  | JArr "json list"
  | JObj "(string \<times> json) list"

text \<open>A JavaScript value read from parsed JSON: \<open>None\<close> is \<^verbatim>\<open>undefined\<close>.\<close>

type_synonym jsval = "json option"

text \<open>Exceptions and promise rejections that can leave the handler.\<close>

datatype error = TypeError | RangeError | HandlerFailure

text \<open>A handler is a function reference; two registrations are the same handler iff the
  references are equal.\<close>

type_synonym handler = nat

text \<open>What a call of a handler does: return (a value or a promise that resolves), throw
  synchronously, or return a promise that rejects.\<close>

datatype outcome = Completes | Throws | Rejects

text \<open>The value of a property of the handlers object, as the handler uses it: a falsy
  value, a function, or a truthy value that is no function (calling it raises a
  TypeError).\<close>

datatype prop_value = Falsy | Callable handler | NotCallable

text \<open>The functions of the runtime the handler calls: \<^verbatim>\<open>JSON.parse\<close> (\<open>None\<close> when it
  throws), \<^verbatim>\<open>crypto.createHmac('sha256', secret).update(message).digest('hex')\<close> and the
  conversion of a value to a property key used by the \<^verbatim>\<open>in\<close> operator; \<open>empty_object\<close>
  is the object literal \<^verbatim>\<open>{}\<close> as \<^verbatim>\<open>in\<close> and a property read see it, with the properties
  it inherits from \<^verbatim>\<open>Object.prototype\<close> (see \<open>TwitchWebhookHandlers\<close> below).\<close>

record runtime =
  JSON_parse :: "string \<Rightarrow> json option"
  hmac_sha256_hex :: "string \<Rightarrow> string \<Rightarrow> string"
  toPropertyKey :: "jsval \<Rightarrow> string"
  empty_object :: "string \<Rightarrow> prop_value option"

text \<open>\<^verbatim>\<open>TwitchWebhookResult\<close>. A textual body is \<open>JStr\<close>; the verification branch returns the
  challenge value as it was parsed.\<close>

record TwitchWebhookResult =
  status :: nat
  headers :: "(string \<times> string) list option"
  body :: "json option"

text \<open>The \<^verbatim>\<open>Request\<close>: \<open>req_headers\<close> is \<^verbatim>\<open>request.headers.get\<close> (\<open>None\<close> is \<^verbatim>\<open>null\<close>),
  \<open>req_text\<close> is what \<^verbatim>\<open>request.text()\<close> resolves to.\<close>

record Request =
  req_headers :: "string \<Rightarrow> string option"
  req_text :: string

text \<open>\<^verbatim>\<open>TwitchWebhookOptions\<close>. The handlers object maps a property name to \<open>None\<close> when
  \<^verbatim>\<open>name in handlers\<close> is false (the property is neither its own nor inherited) and to
  \<open>Some v\<close> when \<^verbatim>\<open>handlers[name]\<close> is \<open>v\<close>; \<^verbatim>\<open>onUnknownEvent\<close> is the property of that
  name.\<close>

type_synonym TwitchWebhookHandlers = "string \<Rightarrow> prop_value option"

record TwitchWebhookOptions =
  secret :: string
  handlers :: "TwitchWebhookHandlers option"

section \<open>JavaScript primitives used by the handler\<close>

text \<open>Truthiness of a value, as \<^verbatim>\<open>!v\<close> tests it.\<close>

fun truthy :: "jsval \<Rightarrow> bool" where
  "truthy None = False"
| "truthy (Some JNull) = False"
| "truthy (Some (JBool b)) = b"
| "truthy (Some (JNum n)) = (n \<noteq> 0)"
| "truthy (Some (JStr s)) = (s \<noteq> [])"
| "truthy (Some (JArr xs)) = True"
| "truthy (Some (JObj kvs)) = True"

text \<open>Truthiness of a header value (\<^verbatim>\<open>string | null\<close>).\<close>

definition truthy_str :: "string option \<Rightarrow> bool" where
  "truthy_str v = (case v of None \<Rightarrow> False | Some s \<Rightarrow> s \<noteq> [])"

text \<open>Reading the property \<open>k\<close> of a value, for the names the handler reads
  (\<^verbatim>\<open>subscription\<close>, \<^verbatim>\<open>type\<close>, \<^verbatim>\<open>challenge\<close>): \<^verbatim>\<open>null\<close> and \<^verbatim>\<open>undefined\<close> raise a TypeError, an
  object gives the last entry of that name (as \<^verbatim>\<open>JSON.parse\<close> keeps it) or \<^verbatim>\<open>undefined\<close>,
  any other value gives \<^verbatim>\<open>undefined\<close>.\<close>

fun get_prop :: "jsval \<Rightarrow> string \<Rightarrow> error + jsval" where
  "get_prop None k = Inl TypeError"
| "get_prop (Some JNull) k = Inl TypeError"
| "get_prop (Some (JObj kvs)) k = Inr (map_of (rev kvs) k)"
| "get_prop (Some v) k = Inr None"

text \<open>\<^verbatim>\<open>JSON.stringify\<close> of a string: quotes, backslashes and control characters escaped.\<close>

definition hex_digit :: "nat \<Rightarrow> char" where
  "hex_digit n = (''0123456789abcdef'') ! (n mod 16)"

definition quote_char :: "char \<Rightarrow> string" where
  "quote_char c =
     (if c = CHR 0x22 then [CHR 0x5C, CHR 0x22]
      else if c = CHR 0x5C then [CHR 0x5C, CHR 0x5C]
      else if c = CHR 0x08 then [CHR 0x5C, CHR ''b'']
      else if c = CHR 0x0C then [CHR 0x5C, CHR ''f'']
      else if c = CHR 0x0A then [CHR 0x5C, CHR ''n'']
      else if c = CHR 0x0D then [CHR 0x5C, CHR ''r'']
      else if c = CHR 0x09 then [CHR 0x5C, CHR ''t'']
      else if (of_char c :: nat) < 32
        then [CHR 0x5C, CHR ''u'', CHR ''0'', CHR ''0'',
              hex_digit (of_char c div 16), hex_digit (of_char c)]
      else [c])"

definition JSON_stringify_str :: "string \<Rightarrow> string" where
  "JSON_stringify_str s = [CHR 0x22] @ concat (map quote_char s) @ [CHR 0x22]"

text \<open>\<^verbatim>\<open>JSON.stringify({ error: msg })\<close>.\<close>

definition JSON_stringify_error :: "string \<Rightarrow> string" where
  "JSON_stringify_error msg =
     ''{'' @ JSON_stringify_str ''error'' @ '':'' @ JSON_stringify_str msg @ ''}''"

section \<open>Signature verifier\<close>

text \<open>\<^verbatim>\<open>Buffer.from(s)\<close>: the UTF-8 bytes of the string.\<close>

definition Buffer_from :: "string \<Rightarrow> char list" where
  "Buffer_from s = s"

text \<open>\<^verbatim>\<open>crypto.timingSafeEqual\<close>: raises a RangeError when the byte lengths differ.\<close>

definition timingSafeEqual :: "char list \<Rightarrow> char list \<Rightarrow> error + bool" where
  "timingSafeEqual a b = (if length a \<noteq> length b then Inl RangeError else Inr (a = b))"

text \<open>\<^verbatim>\<open>getHmac\<close>.\<close>

definition getHmac :: "runtime \<Rightarrow> string \<Rightarrow> string \<Rightarrow> string" where
  "getHmac rt sec message = hmac_sha256_hex rt sec message"

text \<open>\<^verbatim>\<open>verifyMessage\<close> of \<^verbatim>\<open>src/webhook_handler.ts\<close>: the exception is caught.\<close>

definition verifyMessage :: "string \<Rightarrow> string \<Rightarrow> bool" where
  "verifyMessage hmac verifySignature =
     (case timingSafeEqual (Buffer_from hmac) (Buffer_from verifySignature) of
        Inl e \<Rightarrow> False
      | Inr b \<Rightarrow> b)"

text \<open>\<^verbatim>\<open>verifyMessage\<close> of the unnamed copy: the exception is not caught.\<close>

definition verifyMessage_part000 :: "string \<Rightarrow> string \<Rightarrow> error + bool" where
  "verifyMessage_part000 hmac verifySignature =
     timingSafeEqual (Buffer_from hmac) (Buffer_from verifySignature)"

section \<open>Handler registry\<close>

text \<open>
  \<^verbatim>\<open>eventHandlers\<close> is a \<^verbatim>\<open>Map\<close> from a key to a \<^verbatim>\<open>Set\<close> object. The closure returned by
  \<^verbatim>\<open>on\<close> keeps a reference to the \<^verbatim>\<open>Set\<close> it added to, so the \<^verbatim>\<open>Set\<close> objects live in a
  store: \<open>eventHandlers\<close> maps a key to a reference, \<open>sets\<close> maps a reference to the members
  in insertion order, \<open>next_ref\<close> is the next fresh reference.
\<close>

record registry =
  eventHandlers :: "string \<Rightarrow> nat option"
  sets :: "nat \<Rightarrow> handler list"
  next_ref :: nat

definition empty_registry :: registry where
  "empty_registry = \<lparr>eventHandlers = (\<lambda>k. None), sets = (\<lambda>r. []), next_ref = 0\<rparr>"

text \<open>\<^verbatim>\<open>Set.prototype.add\<close> and \<^verbatim>\<open>Set.prototype.delete\<close> on the members.\<close>

definition set_add :: "handler list \<Rightarrow> handler \<Rightarrow> handler list" where
  "set_add xs h = (if h \<in> set xs then xs else xs @ [h])"

definition set_delete :: "handler list \<Rightarrow> handler \<Rightarrow> handler list" where
  "set_delete xs h = filter (\<lambda>x. x \<noteq> h) xs"

text \<open>\<^verbatim>\<open>eventHandlers.get(key)\<close>: the members of the key's set, \<open>None\<close> for \<^verbatim>\<open>undefined\<close>.\<close>

definition registry_get :: "registry \<Rightarrow> string \<Rightarrow> handler list option" where
  "registry_get reg k = (case eventHandlers reg k of None \<Rightarrow> None | Some r \<Rightarrow> Some (sets reg r))"

text \<open>\<^verbatim>\<open>eventHandlers.get(v)\<close> for a value read from the body: only a string equals a key.\<close>

fun registry_get_val :: "registry \<Rightarrow> jsval \<Rightarrow> handler list option" where
  "registry_get_val reg (Some (JStr s)) = registry_get reg s"
| "registry_get_val reg v = None"

text \<open>The closure \<^verbatim>\<open>on\<close> returns, by the variables it captures: the \<^verbatim>\<open>Set\<close> reference
  \<^verbatim>\<open>handlers\<close>, \<^verbatim>\<open>eventType\<close> and \<^verbatim>\<open>handler\<close>.\<close>

datatype unsubscribe = Unsubscribe nat string handler

definition on :: "string \<Rightarrow> handler \<Rightarrow> registry \<Rightarrow> unsubscribe \<times> registry" where
  "on eventType h reg =
     (let reg1 = (if eventHandlers reg eventType = None
                  then reg\<lparr>eventHandlers := (eventHandlers reg)(eventType := Some (next_ref reg)),
                           sets := (sets reg)(next_ref reg := []),
                           next_ref := Suc (next_ref reg)\<rparr>
                  else reg);
          r = the (eventHandlers reg1 eventType);
          reg2 = reg1\<lparr>sets := (sets reg1)(r := set_add (sets reg1 r) h)\<rparr>
      in (Unsubscribe r eventType h, reg2))"

text \<open>Calling the returned closure.\<close>

fun call_unsubscribe :: "unsubscribe \<Rightarrow> registry \<Rightarrow> registry" where
  "call_unsubscribe (Unsubscribe r eventType h) reg =
     (let reg1 = reg\<lparr>sets := (sets reg)(r := set_delete (sets reg r) h)\<rparr>
      in if length (sets reg1 r) = 0
         then reg1\<lparr>eventHandlers := (eventHandlers reg1)(eventType := None)\<rparr>
         else reg1)"

section \<open>Webhook dispatcher\<close>

text \<open>A run of the handler gives the handler calls it made, in order, and either the
  result the promise resolves to or the error it rejects with. The handlers are functions
  of the caller: what a call does is a parameter (\<open>behave\<close>), and a handler is taken not to
  change the registry while a request is processed.\<close>

datatype call = OptionsCall handler | RegistryCall handler

type_synonym 'a eff = "call list \<times> (error + 'a)"

definition return_eff :: "'a \<Rightarrow> 'a eff" where
  "return_eff x = ([], Inr x)"

definition raise_eff :: "error \<Rightarrow> 'a eff" where
  "raise_eff e = ([], Inl e)"

definition lift_eff :: "error + 'a \<Rightarrow> 'a eff" where
  "lift_eff r = ([], r)"

definition bind_eff :: "'a eff \<Rightarrow> ('a \<Rightarrow> 'b eff) \<Rightarrow> 'b eff" where
  "bind_eff m f =
     (case m of
        (l, Inl e) \<Rightarrow> (l, Inl e)
      | (l, Inr x) \<Rightarrow> (case f x of (l', r) \<Rightarrow> (l @ l', r)))"

definition mk_result :: "nat \<Rightarrow> (string \<times> string) list option \<Rightarrow> json option \<Rightarrow> TwitchWebhookResult" where
  "mk_result st hdrs bd = \<lparr>status = st, headers = hdrs, body = bd\<rparr>"

definition error_result :: "nat \<Rightarrow> string \<Rightarrow> TwitchWebhookResult" where
  "error_result st msg = mk_result st None (Some (JStr (JSON_stringify_error msg)))"

definition dquote :: "string \<Rightarrow> string" where
  "dquote s = [CHR 0x22] @ s @ [CHR 0x22]"

definition msg_missing_id_timestamp :: string where
  "msg_missing_id_timestamp =
     ''Missing required headers '' @ dquote ''twitch-eventsub-message-id'' @ '' or ''
       @ dquote ''twitch-eventsub-message-timestamp''"

definition msg_missing_signature :: string where
  "msg_missing_signature =
     ''Missing required header '' @ dquote ''twitch-eventsub-message-signature''"

definition msg_missing_type :: string where
  "msg_missing_type = ''Missing required header '' @ dquote ''twitch-eventsub-message-type''"

text \<open>\<^verbatim>\<open>await Promise.resolve(handler(notification))\<close> for a handler of the options.\<close>

definition call_awaited :: "(handler \<Rightarrow> json \<Rightarrow> outcome) \<Rightarrow> handler \<Rightarrow> json \<Rightarrow> unit eff" where
  "call_awaited behave h n =
     ([OptionsCall h], if behave h n = Completes then Inr () else Inl HandlerFailure)"

text \<open>\<^verbatim>\<open>Array.from(set).map(handler => Promise.resolve(handler(notification)))\<close>: the handlers
  are called in order; one that throws ends the \<^verbatim>\<open>map\<close>.\<close>

fun map_handlers :: "(handler \<Rightarrow> json \<Rightarrow> outcome) \<Rightarrow> json \<Rightarrow> handler list \<Rightarrow> outcome list eff" where
  "map_handlers behave n [] = ([], Inr [])"
| "map_handlers behave n (h # hs) =
     (if behave h n = Throws then ([RegistryCall h], Inl HandlerFailure)
      else (case map_handlers behave n hs of
              (l, r) \<Rightarrow> (RegistryCall h # l, map_sum id (Cons (behave h n)) r)))"

text \<open>\<^verbatim>\<open>await Promise.all(promises)\<close>.\<close>

definition Promise_all :: "outcome list \<Rightarrow> unit eff" where
  "Promise_all ps = ([], if Rejects \<in> set ps then Inl HandlerFailure else Inr ())"

definition invoke_group :: "(handler \<Rightarrow> json \<Rightarrow> outcome) \<Rightarrow> json \<Rightarrow> handler list option \<Rightarrow> unit eff" where
  "invoke_group behave n g =
     (case g of
        None \<Rightarrow> return_eff ()
      | Some hs \<Rightarrow> bind_eff (map_handlers behave n hs) Promise_all)"

text \<open>\<^verbatim>\<open>if (value) await value(notification)\<close> for a property value of the handlers object:
  a falsy value is skipped, a function is called, any other value raises a TypeError.\<close>

definition call_if_truthy :: "(handler \<Rightarrow> json \<Rightarrow> outcome) \<Rightarrow> prop_value \<Rightarrow> json \<Rightarrow> unit eff" where
  "call_if_truthy behave v n =
     (case v of
        Falsy \<Rightarrow> return_eff ()
      | Callable h \<Rightarrow> call_awaited behave h n
      | NotCallable \<Rightarrow> raise_eff TypeError)"

text \<open>\<^verbatim>\<open>if (eventType in handlers) { const handler = handlers[eventType]; if (handler) await
  Promise.resolve(handler(notification)) }\<close>, with \<open>key\<close> the property key of the event
  type.\<close>

definition call_event_handler ::
  "(handler \<Rightarrow> json \<Rightarrow> outcome) \<Rightarrow> TwitchWebhookHandlers \<Rightarrow> string \<Rightarrow> json \<Rightarrow> unit eff" where
  "call_event_handler behave hs key n =
     (case hs key of
        None \<Rightarrow> return_eff ()
      | Some v \<Rightarrow> call_if_truthy behave v n)"

text \<open>\<^verbatim>\<open>if (!(eventType in handlers) && handlers.onUnknownEvent) await
  handlers.onUnknownEvent(notification)\<close>.\<close>

definition call_onUnknownEvent ::
  "(handler \<Rightarrow> json \<Rightarrow> outcome) \<Rightarrow> TwitchWebhookHandlers \<Rightarrow> string \<Rightarrow> json \<Rightarrow> unit eff" where
  "call_onUnknownEvent behave hs key n =
     (if hs key = None
      then (case hs ''onUnknownEvent'' of
              None \<Rightarrow> return_eff ()
            | Some u \<Rightarrow> call_if_truthy behave u n)
      else return_eff ())"

text \<open>The \<^verbatim>\<open>case 'notification'\<close> block: the handler of the options for the event type,
  else \<^verbatim>\<open>onUnknownEvent\<close>, then the registry handlers of the event type, then those of
  \<^verbatim>\<open>'*'\<close>.\<close>

definition notification_case ::
  "runtime \<Rightarrow> (handler \<Rightarrow> json \<Rightarrow> outcome) \<Rightarrow> registry \<Rightarrow> TwitchWebhookHandlers \<Rightarrow> json
     \<Rightarrow> TwitchWebhookResult eff" where
  "notification_case rt behave reg hs notification =
     bind_eff (lift_eff (get_prop (Some notification) ''subscription'')) (\<lambda>subscription.
     bind_eff (lift_eff (get_prop subscription ''type'')) (\<lambda>eventType.
     bind_eff (call_event_handler behave hs (toPropertyKey rt eventType) notification) (\<lambda>_.
     bind_eff (call_onUnknownEvent behave hs (toPropertyKey rt eventType) notification) (\<lambda>_.
     bind_eff (invoke_group behave notification (registry_get_val reg eventType)) (\<lambda>_.
     bind_eff (invoke_group behave notification (registry_get reg ''*'')) (\<lambda>_.
     return_eff (mk_result 204 None None)))))))"

text \<open>The \<^verbatim>\<open>case 'webhook_callback_verification'\<close> block.\<close>

definition verification_case :: "json \<Rightarrow> TwitchWebhookResult eff" where
  "verification_case bodyJson =
     bind_eff (lift_eff (get_prop (Some bodyJson) ''challenge'')) (\<lambda>challenge.
       if \<not> truthy challenge
       then return_eff (error_result 400 ''Missing challenge in verification request'')
       else return_eff (mk_result 200 (Some [(''content-type'', ''text/plain'')]) challenge))"

text \<open>The \<^verbatim>\<open>switch (messageType)\<close> of \<^verbatim>\<open>src/webhook_handler.ts\<close>.\<close>

definition switch_messageType ::
  "runtime \<Rightarrow> (handler \<Rightarrow> json \<Rightarrow> outcome) \<Rightarrow> registry \<Rightarrow> TwitchWebhookHandlers \<Rightarrow> string \<Rightarrow> json
     \<Rightarrow> TwitchWebhookResult eff" where
  "switch_messageType rt behave reg hs messageType bodyJson =
     (if messageType = ''notification'' then notification_case rt behave reg hs bodyJson
      else if messageType = ''webhook_callback_verification'' then verification_case bodyJson
      else return_eff (error_result 400 (''Invalid message type: '' @ messageType)))"

text \<open>The \<^verbatim>\<open>switch (messageType)\<close> of the unnamed copy, with its \<^verbatim>\<open>"revocation"\<close> case
  (\<^verbatim>\<open>console.error\<close> leaves no trace in the result).\<close>

definition switch_messageType_part000 ::
  "runtime \<Rightarrow> (handler \<Rightarrow> json \<Rightarrow> outcome) \<Rightarrow> registry \<Rightarrow> TwitchWebhookHandlers \<Rightarrow> string \<Rightarrow> json
     \<Rightarrow> TwitchWebhookResult eff" where
  "switch_messageType_part000 rt behave reg hs messageType bodyJson =
     (if messageType = ''notification'' then notification_case rt behave reg hs bodyJson
      else if messageType = ''webhook_callback_verification'' then verification_case bodyJson
      else if messageType = ''revocation'' then return_eff (mk_result 204 None None)
      else return_eff (error_result 400 (''Invalid message type: '' @ messageType)))"

text \<open>\<^verbatim>\<open>handleTwitchWebhook\<close> of \<^verbatim>\<open>src/webhook_handler.ts\<close>. \<open>behave\<close> says what each handler
  does when called, \<open>reg\<close> is the registry at the time of the call.\<close>

definition handleTwitchWebhook ::
  "runtime \<Rightarrow> (handler \<Rightarrow> json \<Rightarrow> outcome) \<Rightarrow> registry \<Rightarrow> Request \<Rightarrow> TwitchWebhookOptions
     \<Rightarrow> TwitchWebhookResult eff" where
  "handleTwitchWebhook rt behave reg request options =
     (let sec = secret options;
          hs = (case handlers options of None \<Rightarrow> empty_object rt | Some h \<Rightarrow> h);
          messageId = req_headers request ''twitch-eventsub-message-id'';
          timestamp = req_headers request ''twitch-eventsub-message-timestamp'';
          signature = req_headers request ''twitch-eventsub-message-signature'';
          messageType = req_headers request ''twitch-eventsub-message-type''
      in if \<not> truthy_str messageId \<or> \<not> truthy_str timestamp
         then return_eff (error_result 400 msg_missing_id_timestamp)
         else if \<not> truthy_str signature
         then return_eff (error_result 400 msg_missing_signature)
         else if \<not> truthy_str messageType
         then return_eff (error_result 400 msg_missing_type)
         else
           (let body = req_text request
            in case JSON_parse rt body of
                 None \<Rightarrow> return_eff (error_result 400 ''Invalid JSON body'')
               | Some bodyJson \<Rightarrow>
                   (let message = the messageId @ the timestamp @ body;
                        hmac = ''sha256='' @ getHmac rt sec message
                    in if \<not> verifyMessage hmac (the signature)
                       then return_eff (error_result 401 ''Invalid signature'')
                       else switch_messageType rt behave reg hs (the messageType) bodyJson)))"

text \<open>\<^verbatim>\<open>handleTwitchWebhook\<close> of the unnamed copy: an exception of its \<^verbatim>\<open>verifyMessage\<close>
  rejects the promise.\<close>

definition handleTwitchWebhook_part000 ::
  "runtime \<Rightarrow> (handler \<Rightarrow> json \<Rightarrow> outcome) \<Rightarrow> registry \<Rightarrow> Request \<Rightarrow> TwitchWebhookOptions
     \<Rightarrow> TwitchWebhookResult eff" where
  "handleTwitchWebhook_part000 rt behave reg request options =
     (let sec = secret options;
          hs = (case handlers options of None \<Rightarrow> empty_object rt | Some h \<Rightarrow> h);
          messageId = req_headers request ''twitch-eventsub-message-id'';
          timestamp = req_headers request ''twitch-eventsub-message-timestamp'';
          signature = req_headers request ''twitch-eventsub-message-signature'';
          messageType = req_headers request ''twitch-eventsub-message-type''
      in if \<not> truthy_str messageId \<or> \<not> truthy_str timestamp
         then return_eff (error_result 400 msg_missing_id_timestamp)
         else if \<not> truthy_str signature
         then return_eff (error_result 400 msg_missing_signature)
         else if \<not> truthy_str messageType
         then return_eff (error_result 400 msg_missing_type)
         else
           (let body = req_text request
            in case JSON_parse rt body of
                 None \<Rightarrow> return_eff (error_result 400 ''Invalid JSON body'')
               | Some bodyJson \<Rightarrow>
                   (let message = the messageId @ the timestamp @ body;
                        hmac = ''sha256='' @ getHmac rt sec message
                    in case verifyMessage_part000 hmac (the signature) of
                         Inl e \<Rightarrow> raise_eff e
                       | Inr ok \<Rightarrow>
                           if \<not> ok
                           then return_eff (error_result 401 ''Invalid signature'')
                           else switch_messageType_part000 rt behave reg hs
                                  (the messageType) bodyJson)))"


definition group_members :: "handler list option \<Rightarrow> handler list" where
  "group_members g = (case g of None \<Rightarrow> [] | Some hs \<Rightarrow> hs)"


section \<open>Fixtures for concrete runs\<close>

text \<open>A request from its four header values and its body text.\<close>

definition mk_request ::
  "string option \<Rightarrow> string option \<Rightarrow> string option \<Rightarrow> string option \<Rightarrow> string \<Rightarrow> Request" where
  "mk_request mid ts sg mt txt =
     \<lparr>req_headers = (\<lambda>name.
         if name = ''twitch-eventsub-message-id'' then mid
         else if name = ''twitch-eventsub-message-timestamp'' then ts
         else if name = ''twitch-eventsub-message-signature'' then sg
         else if name = ''twitch-eventsub-message-type'' then mt
         else None),
       req_text = txt\<rparr>"

text \<open>The valid signature of a request: what the handler computes.\<close>

definition valid_signature :: "runtime \<Rightarrow> string \<Rightarrow> string \<Rightarrow> string \<Rightarrow> string \<Rightarrow> string" where
  "valid_signature rt sec mid ts txt = ''sha256='' @ hmac_sha256_hex rt sec (mid @ ts @ txt)"

text \<open>Body texts and what \<^verbatim>\<open>JSON.parse\<close> makes of them.\<close>

definition txt_challenge :: "string \<Rightarrow> string" where
  "txt_challenge v = ''{'' @ dquote ''challenge'' @ '':'' @ v @ ''}''"

definition txt_type :: "string \<Rightarrow> string" where
  "txt_type ty =
     ''{'' @ dquote ''subscription'' @ '':{'' @ dquote ''type'' @ '':'' @ dquote ty @ ''}}''"

definition txt_follow :: string where
  "txt_follow =
     ''{'' @ dquote ''subscription'' @ '':{'' @ dquote ''type'' @ '':''
       @ dquote ''channel.follow'' @ ''}}''"

definition test_parse :: "string \<Rightarrow> json option" where
  "test_parse s =
     (if s = ''{}'' then Some (JObj [])
      else if s = ''null'' then Some JNull
      else if s = txt_challenge (dquote ''abc123'')
        then Some (JObj [(''challenge'', JStr ''abc123'')])
      else if s = txt_challenge (dquote []) then Some (JObj [(''challenge'', JStr [])])
      else if s = txt_challenge ''0'' then Some (JObj [(''challenge'', JNum 0)])
      else if s = txt_challenge ''false'' then Some (JObj [(''challenge'', JBool False)])
      else if s = txt_challenge ''null'' then Some (JObj [(''challenge'', JNull)])
      else if s = txt_follow
        then Some (JObj [(''subscription'', JObj [(''type'', JStr ''channel.follow'')])])
      else if s = txt_type ''__proto__''
        then Some (JObj [(''subscription'', JObj [(''type'', JStr ''__proto__'')])])
      else None)"

text \<open>The property key of the values the parser above can give as an event type (a string
  or \<^verbatim>\<open>undefined\<close>), and of \<^verbatim>\<open>null\<close>, booleans and objects; for a number or an array, which
  no body above holds as event type, it has the empty string.\<close>

fun test_toPropertyKey :: "jsval \<Rightarrow> string" where
  "test_toPropertyKey None = ''undefined''"
| "test_toPropertyKey (Some JNull) = ''null''"
| "test_toPropertyKey (Some (JBool b)) = (if b then ''true'' else ''false'')"
| "test_toPropertyKey (Some (JStr s)) = s"
| "test_toPropertyKey (Some (JObj kvs)) = ''[object Object]''"
| "test_toPropertyKey (Some v) = []"

text \<open>The object literal \<^verbatim>\<open>{}\<close>: it has no property of its own and inherits those of
  \<^verbatim>\<open>Object.prototype\<close>, the functions (here the handlers 100 to 110) and \<^verbatim>\<open>__proto__\<close>, which
  reads as \<^verbatim>\<open>Object.prototype\<close> itself, an object that is no function.\<close>

definition test_empty_object :: "string \<Rightarrow> prop_value option" where
  "test_empty_object k =
     (if k = ''__proto__'' then Some NotCallable
      else if k = ''constructor'' then Some (Callable 100)
      else if k = ''__defineGetter__'' then Some (Callable 101)
      else if k = ''__defineSetter__'' then Some (Callable 102)
      else if k = ''hasOwnProperty'' then Some (Callable 103)
      else if k = ''__lookupGetter__'' then Some (Callable 104)
      else if k = ''__lookupSetter__'' then Some (Callable 105)
      else if k = ''isPrototypeOf'' then Some (Callable 106)
      else if k = ''propertyIsEnumerable'' then Some (Callable 107)
      else if k = ''toString'' then Some (Callable 108)
      else if k = ''valueOf'' then Some (Callable 109)
      else if k = ''toLocaleString'' then Some (Callable 110)
      else None)"

text \<open>A runtime for concrete runs: its parser knows the body texts above, its HMAC is a
  stand-in that gives a fixed string of 64 digits.\<close>

definition test_runtime :: runtime where
  "test_runtime =
     \<lparr>JSON_parse = test_parse,
       hmac_sha256_hex =
         (\<lambda>k m. ''0123456789abcdef0123456789abcdef0123456789abcdef0123456789abcdef''),
       toPropertyKey = test_toPropertyKey,
       empty_object = test_empty_object\<rparr>"

definition test_options :: TwitchWebhookOptions where
  "test_options = \<lparr>secret = ''s3cret'', handlers = None\<rparr>"

text \<open>The registry after \<^verbatim>\<open>on('channel.follow', h1); on('*', h2)\<close>, with \<open>h1 = 1\<close> and
  \<open>h2 = 2\<close>.\<close>

definition test_registry :: registry where
  "test_registry = snd (on ''*'' 2 (snd (on ''channel.follow'' 1 empty_registry)))"

section \<open>Basic facts about the embedding\<close>

lemma stringify_invalid_signature:
  "JSON_stringify_error ''Invalid signature'' =
     ''{'' @ dquote ''error'' @ '':'' @ dquote ''Invalid signature'' @ ''}''"
  by (simp add: JSON_stringify_error_def JSON_stringify_str_def quote_char_def dquote_def)

lemma verifyMessage_iff: "verifyMessage a b \<longleftrightarrow> a = b"
  by (auto simp: verifyMessage_def timingSafeEqual_def Buffer_from_def)

lemma verifyMessage_part000_eq_len:
  "length a = length b \<Longrightarrow> verifyMessage_part000 a b = Inr (a = b)"
  by (simp add: verifyMessage_part000_def timingSafeEqual_def Buffer_from_def)

lemma handle_after_headers:
  assumes "req_headers req ''twitch-eventsub-message-id'' = Some mid" "mid \<noteq> []"
    and "req_headers req ''twitch-eventsub-message-timestamp'' = Some ts" "ts \<noteq> []"
    and "req_headers req ''twitch-eventsub-message-signature'' = Some sg" "sg \<noteq> []"
    and "req_headers req ''twitch-eventsub-message-type'' = Some mt" "mt \<noteq> []"
  shows "handleTwitchWebhook rt behave reg req opts =
     (case JSON_parse rt (req_text req) of
        None \<Rightarrow> return_eff (error_result 400 ''Invalid JSON body'')
      | Some bodyJson \<Rightarrow>
          if \<not> verifyMessage (valid_signature rt (secret opts) mid ts (req_text req)) sg
          then return_eff (error_result 401 ''Invalid signature'')
          else switch_messageType rt behave reg
                 (case handlers opts of None \<Rightarrow> empty_object rt | Some h \<Rightarrow> h) mt bodyJson)"
  using assms
  by (simp add: handleTwitchWebhook_def Let_def truthy_str_def valid_signature_def getHmac_def
      split: option.splits)

lemma handle_part000_after_headers:
  assumes "req_headers req ''twitch-eventsub-message-id'' = Some mid" "mid \<noteq> []"
    and "req_headers req ''twitch-eventsub-message-timestamp'' = Some ts" "ts \<noteq> []"
    and "req_headers req ''twitch-eventsub-message-signature'' = Some sg" "sg \<noteq> []"
    and "req_headers req ''twitch-eventsub-message-type'' = Some mt" "mt \<noteq> []"
  shows "handleTwitchWebhook_part000 rt behave reg req opts =
     (case JSON_parse rt (req_text req) of
        None \<Rightarrow> return_eff (error_result 400 ''Invalid JSON body'')
      | Some bodyJson \<Rightarrow>
          (case verifyMessage_part000 (valid_signature rt (secret opts) mid ts (req_text req)) sg of
             Inl e \<Rightarrow> raise_eff e
           | Inr ok \<Rightarrow>
              if \<not> ok
              then return_eff (error_result 401 ''Invalid signature'')
              else switch_messageType_part000 rt behave reg
                 (case handlers opts of None \<Rightarrow> empty_object rt | Some h \<Rightarrow> h) mt bodyJson))"
  using assms
  by (simp add: handleTwitchWebhook_part000_def Let_def truthy_str_def valid_signature_def getHmac_def
      split: option.splits sum.splits)

lemma test_runtime_simps:
  "JSON_parse test_runtime = test_parse"
  "hmac_sha256_hex test_runtime k m =
     ''0123456789abcdef0123456789abcdef0123456789abcdef0123456789abcdef''"
  "toPropertyKey test_runtime = test_toPropertyKey"
  "empty_object test_runtime = test_empty_object"
  "secret test_options = ''s3cret''"
  "handlers test_options = None"
  by (simp_all add: test_runtime_def test_options_def)

lemma mk_request_headers:
  "req_headers (mk_request mid ts sg mt txt) ''twitch-eventsub-message-id'' = mid"
  "req_headers (mk_request mid ts sg mt txt) ''twitch-eventsub-message-timestamp'' = ts"
  "req_headers (mk_request mid ts sg mt txt) ''twitch-eventsub-message-signature'' = sg"
  "req_headers (mk_request mid ts sg mt txt) ''twitch-eventsub-message-type'' = mt"
  "req_text (mk_request mid ts sg mt txt) = txt"
  by (simp_all add: mk_request_def)

lemma header_errors_distinct:
  "distinct [error_result 400 msg_missing_id_timestamp, error_result 400 msg_missing_signature,
             error_result 400 msg_missing_type]"
  by (simp add: error_result_def mk_result_def JSON_stringify_error_def JSON_stringify_str_def
      msg_missing_id_timestamp_def msg_missing_signature_def msg_missing_type_def dquote_def
      quote_char_def)

lemma status_error_result [simp]: "status (error_result st m) = st"
  by (simp add: error_result_def mk_result_def)

lemma parse_failure_is_400:
  assumes "JSON_parse rt (req_text req) = None"
  shows "\<exists>m. handleTwitchWebhook rt behave reg req opts = ([], Inr (error_result 400 m))"
    and "\<exists>m. handleTwitchWebhook_part000 rt behave reg req opts = ([], Inr (error_result 400 m))"
  using assms
  by (auto simp: handleTwitchWebhook_def handleTwitchWebhook_part000_def Let_def return_eff_def)

lemma handle_valid_signature:
  assumes "req_headers req ''twitch-eventsub-message-id'' = Some mid" "mid \<noteq> []"
    and "req_headers req ''twitch-eventsub-message-timestamp'' = Some ts" "ts \<noteq> []"
    and "req_headers req ''twitch-eventsub-message-signature'' =
           Some (valid_signature rt (secret opts) mid ts (req_text req))"
    and "req_headers req ''twitch-eventsub-message-type'' = Some mt" "mt \<noteq> []"
    and "JSON_parse rt (req_text req) = Some bodyJson"
  shows "handleTwitchWebhook rt behave reg req opts =
           switch_messageType rt behave reg
             (case handlers opts of None \<Rightarrow> empty_object rt | Some h \<Rightarrow> h) mt bodyJson"
    and "handleTwitchWebhook_part000 rt behave reg req opts =
           switch_messageType_part000 rt behave reg
             (case handlers opts of None \<Rightarrow> empty_object rt | Some h \<Rightarrow> h) mt bodyJson"
proof -
  have ne: "valid_signature rt (secret opts) mid ts (req_text req) \<noteq> []"
    by (simp add: valid_signature_def)
  note h = assms(1-5) ne assms(6,7)
  show "handleTwitchWebhook rt behave reg req opts =
           switch_messageType rt behave reg
             (case handlers opts of None \<Rightarrow> empty_object rt | Some h \<Rightarrow> h) mt bodyJson"
    using assms(8) by (simp add: handle_after_headers [OF h] verifyMessage_iff)
  show "handleTwitchWebhook_part000 rt behave reg req opts =
           switch_messageType_part000 rt behave reg
             (case handlers opts of None \<Rightarrow> empty_object rt | Some h \<Rightarrow> h) mt bodyJson"
    using assms(8)
    by (simp add: handle_part000_after_headers [OF h] verifyMessage_part000_eq_len)
qed

lemma revocation_results:
  assumes "req_headers req ''twitch-eventsub-message-id'' = Some mid" "mid \<noteq> []"
    and "req_headers req ''twitch-eventsub-message-timestamp'' = Some ts" "ts \<noteq> []"
    and "req_headers req ''twitch-eventsub-message-signature'' =
           Some (valid_signature rt (secret opts) mid ts (req_text req))"
    and "req_headers req ''twitch-eventsub-message-type'' = Some ''revocation''"
    and "JSON_parse rt (req_text req) = Some bodyJson"
  shows "handleTwitchWebhook rt behave reg req opts =
           ([], Inr (error_result 400 ''Invalid message type: revocation''))"
    and "handleTwitchWebhook_part000 rt behave reg req opts = ([], Inr (mk_result 204 None None))"
proof -
  have ne: "''revocation'' \<noteq> []" by simp
  note h = assms(1-6) ne assms(7)
  show "handleTwitchWebhook rt behave reg req opts =
           ([], Inr (error_result 400 ''Invalid message type: revocation''))"
    by (simp add: handle_valid_signature(1) [OF h] switch_messageType_def return_eff_def)
  show "handleTwitchWebhook_part000 rt behave reg req opts = ([], Inr (mk_result 204 None None))"
    by (simp add: handle_valid_signature(2) [OF h] switch_messageType_part000_def return_eff_def)
qed

lemma verification_case_challenge:
  "get_prop (Some bodyJson) ''challenge'' = Inr ch \<Longrightarrow>
     verification_case bodyJson =
       ([], Inr (if truthy ch
                 then mk_result 200 (Some [(''content-type'', ''text/plain'')]) ch
                 else error_result 400 ''Missing challenge in verification request''))"
  by (simp add: verification_case_def bind_eff_def lift_eff_def return_eff_def)

lemma verification_case_null: "verification_case JNull = ([], Inl TypeError)"
  by (simp add: verification_case_def bind_eff_def lift_eff_def)

lemma switch_verification:
  "switch_messageType rt behave reg hs ''webhook_callback_verification'' bodyJson =
     verification_case bodyJson"
  "switch_messageType_part000 rt behave reg hs ''webhook_callback_verification'' bodyJson =
     verification_case bodyJson"
  by (simp_all add: switch_messageType_def switch_messageType_part000_def)

lemma verification_results:
  assumes "req_headers req ''twitch-eventsub-message-id'' = Some mid" "mid \<noteq> []"
    and "req_headers req ''twitch-eventsub-message-timestamp'' = Some ts" "ts \<noteq> []"
    and "req_headers req ''twitch-eventsub-message-signature'' =
           Some (valid_signature rt (secret opts) mid ts (req_text req))"
    and "req_headers req ''twitch-eventsub-message-type'' = Some ''webhook_callback_verification''"
    and "JSON_parse rt (req_text req) = Some bodyJson"
  shows "handleTwitchWebhook rt behave reg req opts = verification_case bodyJson"
    and "handleTwitchWebhook_part000 rt behave reg req opts = verification_case bodyJson"
proof -
  have ne: "''webhook_callback_verification'' \<noteq> []" by simp
  note h = assms(1-6) ne assms(7)
  show "handleTwitchWebhook rt behave reg req opts = verification_case bodyJson"
    by (simp only: handle_valid_signature(1) [OF h] switch_verification)
  show "handleTwitchWebhook_part000 rt behave reg req opts = verification_case bodyJson"
    by (simp only: handle_valid_signature(2) [OF h] switch_verification)
qed

lemma test_valid_signature:
  "valid_signature test_runtime ''s3cret'' mid ts txt =
     ''sha256=0123456789abcdef0123456789abcdef0123456789abcdef0123456789abcdef''"
  by (simp add: valid_signature_def test_runtime_simps)

lemma test_request_facts:
  "req_headers (mk_request (Some ''id-1'') (Some ''2024-01-01T00:00:00Z'')
        (Some ''sha256=0123456789abcdef0123456789abcdef0123456789abcdef0123456789abcdef'')
        (Some mt) txt) ''twitch-eventsub-message-id'' = Some ''id-1''"
  "''id-1'' \<noteq> []"
  "req_headers (mk_request (Some ''id-1'') (Some ''2024-01-01T00:00:00Z'')
        (Some ''sha256=0123456789abcdef0123456789abcdef0123456789abcdef0123456789abcdef'')
        (Some mt) txt) ''twitch-eventsub-message-timestamp'' = Some ''2024-01-01T00:00:00Z''"
  "''2024-01-01T00:00:00Z'' \<noteq> []"
  "req_headers (mk_request (Some ''id-1'') (Some ''2024-01-01T00:00:00Z'')
        (Some ''sha256=0123456789abcdef0123456789abcdef0123456789abcdef0123456789abcdef'')
        (Some mt) txt) ''twitch-eventsub-message-signature'' =
     Some (valid_signature test_runtime (secret test_options) ''id-1'' ''2024-01-01T00:00:00Z''
        (req_text (mk_request (Some ''id-1'') (Some ''2024-01-01T00:00:00Z'')
        (Some ''sha256=0123456789abcdef0123456789abcdef0123456789abcdef0123456789abcdef'')
        (Some mt) txt)))"
  "req_headers (mk_request (Some ''id-1'') (Some ''2024-01-01T00:00:00Z'')
        (Some ''sha256=0123456789abcdef0123456789abcdef0123456789abcdef0123456789abcdef'')
        (Some mt) txt) ''twitch-eventsub-message-type'' = Some mt"
  by (simp_all add: mk_request_headers test_runtime_simps test_valid_signature)

lemma test_parse_simps:
  "test_parse ''{}'' = Some (JObj [])"
  "test_parse ''null'' = Some JNull"
  "test_parse (txt_challenge (dquote ''abc123'')) = Some (JObj [(''challenge'', JStr ''abc123'')])"
  "test_parse (txt_challenge (dquote [])) = Some (JObj [(''challenge'', JStr [])])"
  "test_parse (txt_challenge ''0'') = Some (JObj [(''challenge'', JNum 0)])"
  "test_parse (txt_challenge ''false'') = Some (JObj [(''challenge'', JBool False)])"
  "test_parse (txt_challenge ''null'') = Some (JObj [(''challenge'', JNull)])"
  "test_parse txt_follow =
     Some (JObj [(''subscription'', JObj [(''type'', JStr ''channel.follow'')])])"
  by (simp_all add: test_parse_def txt_challenge_def txt_follow_def txt_type_def dquote_def)

lemma set_delete_idem: "set_delete (set_delete xs h) h = set_delete xs h"
  by (simp add: set_delete_def)

lemma set_set_delete: "set (set_delete xs h) = set xs - {h}"
  by (auto simp: set_delete_def)

lemma set_set_add: "set (set_add xs h) = insert h (set xs)"
  by (auto simp: set_add_def)

text \<open>After \<^verbatim>\<open>on(key, handler)\<close> the key's set holds the handler, and the closure refers to
  the set that is registered under the key.\<close>

lemma on_registers:
  "on k h reg = (u, reg') \<Longrightarrow>
     \<exists>r. u = Unsubscribe r k h \<and> eventHandlers reg' k = Some r \<and> h \<in> set (sets reg' r)"
  by (auto simp: on_def Let_def set_set_add split: if_splits)

text \<open>While the closure's set is the one registered under the key, a call removes exactly
  the handler from it, and the key when the set becomes empty.\<close>

lemma call_unsubscribe_removes:
  assumes "eventHandlers reg k = Some r"
  shows "registry_get (call_unsubscribe (Unsubscribe r k h) reg) k =
           (if set (sets reg r) \<subseteq> {h} then None else Some (set_delete (sets reg r) h))"
  using assms
  by (auto simp: registry_get_def Let_def set_delete_def filter_empty_conv)

text \<open>Two calls in a row do what one call does.\<close>

lemma call_unsubscribe_twice:
  "call_unsubscribe u (call_unsubscribe u reg) = call_unsubscribe u reg"
  by (cases u) (simp add: Let_def set_delete_def)




lemma bind_lift_Inr: "bind_eff (lift_eff (Inr x)) f = f x"
  by (simp add: bind_eff_def lift_eff_def split: prod.splits)

lemma bind_lift_Inl: "bind_eff (lift_eff (Inl e)) f = ([], Inl e)"
  by (simp add: bind_eff_def lift_eff_def)



lemma map_handlers_complete:
  "\<forall>h\<in>set hs. behave h n = Completes \<Longrightarrow>
     map_handlers behave n hs = (map RegistryCall hs, Inr (map (\<lambda>h. Completes) hs))"
  by (induction hs) simp_all



lemma invoke_group_complete:
  "\<forall>h. behave h n = Completes \<Longrightarrow>
     invoke_group behave n g = (map RegistryCall (group_members g), Inr ())"
proof (cases g)
  case None
  then show ?thesis by (simp add: invoke_group_def return_eff_def group_members_def)
next
  case (Some hs)
  assume "\<forall>h. behave h n = Completes"
  then have "map_handlers behave n hs = (map RegistryCall hs, Inr (map (\<lambda>h. Completes) hs))"
    by (simp add: map_handlers_complete)
  then show ?thesis
    by (auto simp: Some invoke_group_def group_members_def bind_eff_def Promise_all_def)
qed






text \<open>A truthy value that is no function ends the run with a TypeError, before the registry
  is read.\<close>

lemma call_event_handler_not_callable:
  "hs k = Some NotCallable \<Longrightarrow> call_event_handler behave hs k n = ([], Inl TypeError)"
  by (simp add: call_event_handler_def call_if_truthy_def raise_eff_def)




lemma notification_case_read:
  assumes "get_prop (Some n) ''subscription'' = Inr sub" "get_prop sub ''type'' = Inr et"
  shows "notification_case rt behave reg hs n =
     bind_eff (call_event_handler behave hs (toPropertyKey rt et) n) (\<lambda>_.
     bind_eff (call_onUnknownEvent behave hs (toPropertyKey rt et) n) (\<lambda>_.
     bind_eff (invoke_group behave n (registry_get_val reg et)) (\<lambda>_.
     bind_eff (invoke_group behave n (registry_get reg ''*'')) (\<lambda>_.
     return_eff (mk_result 204 None None)))))"
  unfolding notification_case_def assms(1) bind_lift_Inr assms(2) ..




lemma notification_case_not_callable:
  assumes "get_prop (Some n) ''subscription'' = Inr sub" "get_prop sub ''type'' = Inr et"
    and "hs (toPropertyKey rt et) = Some NotCallable"
  shows "notification_case rt behave reg hs n = ([], Inl TypeError)"
  unfolding notification_case_read [OF assms(1,2)]
  by (simp add: call_event_handler_not_callable [where hs = hs, OF assms(3)] bind_eff_def)

text \<open>A body without a readable \<^verbatim>\<open>subscription.type\<close> makes the notification run raise a
  TypeError before any handler is called.\<close>

lemma notification_case_unreadable:
  "get_prop (Some n) ''subscription'' = Inl e \<Longrightarrow>
     notification_case rt behave reg hs n = ([], Inl e)"
  "get_prop (Some n) ''subscription'' = Inr sub \<Longrightarrow> get_prop sub ''type'' = Inl e \<Longrightarrow>
     notification_case rt behave reg hs n = ([], Inl e)"
  by (simp_all add: notification_case_def bind_lift_Inr bind_lift_Inl)

lemma notification_results:
  assumes "req_headers req ''twitch-eventsub-message-id'' = Some mid" "mid \<noteq> []"
    and "req_headers req ''twitch-eventsub-message-timestamp'' = Some ts" "ts \<noteq> []"
    and "req_headers req ''twitch-eventsub-message-signature'' =
           Some (valid_signature rt (secret opts) mid ts (req_text req))"
    and "req_headers req ''twitch-eventsub-message-type'' = Some ''notification''"
    and "JSON_parse rt (req_text req) = Some n"
  shows "handleTwitchWebhook rt behave reg req opts =
           notification_case rt behave reg
             (case handlers opts of None \<Rightarrow> empty_object rt | Some h \<Rightarrow> h) n"
    and "handleTwitchWebhook_part000 rt behave reg req opts =
           notification_case rt behave reg
             (case handlers opts of None \<Rightarrow> empty_object rt | Some h \<Rightarrow> h) n"
proof -
  have ne: "''notification'' \<noteq> []" by simp
  note h = assms(1-6) ne assms(7)
  show "handleTwitchWebhook rt behave reg req opts =
           notification_case rt behave reg
             (case handlers opts of None \<Rightarrow> empty_object rt | Some h \<Rightarrow> h) n"
    by (simp add: handle_valid_signature(1) [OF h] switch_messageType_def)
  show "handleTwitchWebhook_part000 rt behave reg req opts =
           notification_case rt behave reg
             (case handlers opts of None \<Rightarrow> empty_object rt | Some h \<Rightarrow> h) n"
    by (simp add: handle_valid_signature(2) [OF h] switch_messageType_part000_def)
qed





text \<open>A signature header that has, in place of the character at position \<open>i\<close> of the valid
  signature, another character, given by its UTF-8 bytes \<open>e\<close> (one byte for an ASCII
  character, more for any other). The valid signature is ASCII (\<^verbatim>\<open>sha256=\<close> and hexadecimal
  digits), so its character at position \<open>i\<close> is its byte at position \<open>i\<close>. The handler of
  \<^verbatim>\<open>src/webhook_handler.ts\<close> answers 401; the handler of the unnamed copy answers 401 when
  the new character is one byte long and is left by the RangeError of \<^verbatim>\<open>timingSafeEqual\<close>
  when it is longer.\<close>

lemma one_character_change:
  assumes "req_headers req ''twitch-eventsub-message-id'' = Some mid" "mid \<noteq> []"
    and "req_headers req ''twitch-eventsub-message-timestamp'' = Some ts" "ts \<noteq> []"
    and "req_headers req ''twitch-eventsub-message-signature'' =
           Some (take i (valid_signature rt (secret opts) mid ts (req_text req)) @ e @
                 drop (Suc i) (valid_signature rt (secret opts) mid ts (req_text req)))"
    and "req_headers req ''twitch-eventsub-message-type'' = Some mt" "mt \<noteq> []"
    and "JSON_parse rt (req_text req) = Some bodyJson"
    and "i < length (valid_signature rt (secret opts) mid ts (req_text req))"
    and "e \<noteq> []"
    and "e \<noteq> [valid_signature rt (secret opts) mid ts (req_text req) ! i]"
  shows "handleTwitchWebhook rt behave reg req opts =
           ([], Inr (error_result 401 ''Invalid signature''))"
    and "handleTwitchWebhook_part000 rt behave reg req opts =
           (if length e = 1 then ([], Inr (error_result 401 ''Invalid signature''))
            else ([], Inl RangeError))"
proof -
  let ?v = "valid_signature rt (secret opts) mid ts (req_text req)"
  let ?s = "take i ?v @ e @ drop (Suc i) ?v"
  have nonempty: "?s \<noteq> []"
    using assms(10) by simp
  have len: "length ?s + 1 = length ?v + length e"
    using assms(9) by simp
  have ne: "?v \<noteq> ?s"
  proof (cases "length e = 1")
    case True
    then obtain b where b: "e = [b]"
      by (cases e) simp_all
    have "?s ! i = b"
      using assms(9) by (simp add: b nth_append)
    with assms(11) b show ?thesis
      by metis
  next
    case False
    with len assms(10) have "length ?s \<noteq> length ?v"
      by (cases e) auto
    then show ?thesis
      by metis
  qed
  note h = assms(1-4) assms(5) nonempty assms(6,7)
  show "handleTwitchWebhook rt behave reg req opts =
           ([], Inr (error_result 401 ''Invalid signature''))"
    using ne assms(8)
    by (simp add: handle_after_headers [OF h] verifyMessage_iff return_eff_def)
  show "handleTwitchWebhook_part000 rt behave reg req opts =
           (if length e = 1 then ([], Inr (error_result 401 ''Invalid signature''))
            else ([], Inl RangeError))"
  proof (cases "length e = 1")
    case True
    with len have "length ?v = length ?s"
      by simp
    from verifyMessage_part000_eq_len [OF this] ne assms(8) True show ?thesis
      by (simp add: handle_part000_after_headers [OF h] return_eff_def)
  next
    case False
    with len assms(10) have "length ?v \<noteq> length ?s"
      by (cases e) auto
    then have "verifyMessage_part000 ?v ?s = Inl RangeError"
      by (simp add: verifyMessage_part000_def timingSafeEqual_def Buffer_from_def)
    with assms(8) False show ?thesis
      by (simp add: handle_part000_after_headers [OF h] raise_eff_def)
  qed
qed

lemma test_proto_parse:
  "JSON_parse test_runtime (req_text (mk_request (Some ''id-1'') (Some ''2024-01-01T00:00:00Z'')
        (Some ''sha256=0123456789abcdef0123456789abcdef0123456789abcdef0123456789abcdef'')
        (Some ''notification'') (txt_type ''__proto__''))) =
     Some (JObj [(''subscription'', JObj [(''type'', JStr ''__proto__'')])])"
  by (simp add: mk_request_headers test_runtime_simps test_parse_def txt_challenge_def
      txt_follow_def txt_type_def dquote_def)

lemma test_proto_read:
  "get_prop (Some (JObj [(''subscription'', JObj [(''type'', JStr ''__proto__'')])]))
     ''subscription'' = Inr (Some (JObj [(''type'', JStr ''__proto__'')]))"
  "get_prop (Some (JObj [(''type'', JStr ''__proto__'')])) ''type'' = Inr (Some (JStr ''__proto__''))"
  by simp_all

text \<open>A correctly signed notification of the event type \<^verbatim>\<open>__proto__\<close>, with no handlers in
  the options: the empty object inherits \<^verbatim>\<open>__proto__\<close>, whose value is truthy and no
  function, so the run ends with a TypeError and no registry handler is called, whatever
  the handlers would do.\<close>

lemma proto_event_type_raises:
  "handleTwitchWebhook test_runtime behave test_registry
     (mk_request (Some ''id-1'') (Some ''2024-01-01T00:00:00Z'')
        (Some ''sha256=0123456789abcdef0123456789abcdef0123456789abcdef0123456789abcdef'')
        (Some ''notification'') (txt_type ''__proto__'')) test_options = ([], Inl TypeError)"
proof -
  have k: "(case handlers test_options of None \<Rightarrow> empty_object test_runtime | Some h \<Rightarrow> h)
      (toPropertyKey test_runtime (Some (JStr ''__proto__''))) = Some NotCallable"
    by (simp add: test_runtime_simps test_empty_object_def)
  show ?thesis
    unfolding notification_results(1) [OF test_request_facts test_proto_parse]
    by (rule notification_case_not_callable [where rt = test_runtime and
          hs = "case handlers test_options of None \<Rightarrow> empty_object test_runtime | Some h \<Rightarrow> h",
          OF test_proto_read k])
qed

section \<open>The claims of the specification\<close>

text \<open>
  C7. The four required headers are checked in a fixed order, with three distinct 400
  errors. When the message-id or the timestamp header is absent (or empty), the result is
  400 with an error naming both headers, whatever the other headers are. When those two
  are there and the signature header is absent, the result is 400 with an error naming
  the signature header. When only the message-type header is absent, the result is 400
  with an error naming that header. Both variants of the handler do this, and no handler
  is called.
\<close>

theorem C7_header_checks:
  fixes req :: Request
  defines "mid \<equiv> req_headers req ''twitch-eventsub-message-id''"
    and "ts \<equiv> req_headers req ''twitch-eventsub-message-timestamp''"
    and "sg \<equiv> req_headers req ''twitch-eventsub-message-signature''"
    and "mt \<equiv> req_headers req ''twitch-eventsub-message-type''"
  shows
  "(\<not> truthy_str mid \<or> \<not> truthy_str ts \<longrightarrow>
      handleTwitchWebhook rt behave reg req opts = ([], Inr (error_result 400 msg_missing_id_timestamp)) \<and>
      handleTwitchWebhook_part000 rt behave reg req opts = ([], Inr (error_result 400 msg_missing_id_timestamp)))
   \<and> (truthy_str mid \<and> truthy_str ts \<and> \<not> truthy_str sg \<longrightarrow>
      handleTwitchWebhook rt behave reg req opts = ([], Inr (error_result 400 msg_missing_signature)) \<and>
      handleTwitchWebhook_part000 rt behave reg req opts = ([], Inr (error_result 400 msg_missing_signature)))
   \<and> (truthy_str mid \<and> truthy_str ts \<and> truthy_str sg \<and> \<not> truthy_str mt \<longrightarrow>
      handleTwitchWebhook rt behave reg req opts = ([], Inr (error_result 400 msg_missing_type)) \<and>
      handleTwitchWebhook_part000 rt behave reg req opts = ([], Inr (error_result 400 msg_missing_type)))
   \<and> distinct [error_result 400 msg_missing_id_timestamp, error_result 400 msg_missing_signature,
                error_result 400 msg_missing_type]
   \<and> msg_missing_id_timestamp =
        ''Missing required headers '' @ dquote ''twitch-eventsub-message-id'' @ '' or ''
          @ dquote ''twitch-eventsub-message-timestamp''
   \<and> msg_missing_signature =
        ''Missing required header '' @ dquote ''twitch-eventsub-message-signature''
   \<and> msg_missing_type = ''Missing required header '' @ dquote ''twitch-eventsub-message-type''"
proof -
  have a: "\<not> truthy_str mid \<or> \<not> truthy_str ts \<Longrightarrow>
      handleTwitchWebhook rt behave reg req opts = ([], Inr (error_result 400 msg_missing_id_timestamp)) \<and>
      handleTwitchWebhook_part000 rt behave reg req opts = ([], Inr (error_result 400 msg_missing_id_timestamp))"
    unfolding mid_def ts_def
    by (auto simp: handleTwitchWebhook_def handleTwitchWebhook_part000_def Let_def return_eff_def)
  have b: "truthy_str mid \<and> truthy_str ts \<and> \<not> truthy_str sg \<Longrightarrow>
      handleTwitchWebhook rt behave reg req opts = ([], Inr (error_result 400 msg_missing_signature)) \<and>
      handleTwitchWebhook_part000 rt behave reg req opts = ([], Inr (error_result 400 msg_missing_signature))"
    unfolding mid_def ts_def sg_def
    by (simp add: handleTwitchWebhook_def handleTwitchWebhook_part000_def Let_def return_eff_def)
  have c: "truthy_str mid \<and> truthy_str ts \<and> truthy_str sg \<and> \<not> truthy_str mt \<Longrightarrow>
      handleTwitchWebhook rt behave reg req opts = ([], Inr (error_result 400 msg_missing_type)) \<and>
      handleTwitchWebhook_part000 rt behave reg req opts = ([], Inr (error_result 400 msg_missing_type))"
    unfolding mid_def ts_def sg_def mt_def
    by (simp add: handleTwitchWebhook_def handleTwitchWebhook_part000_def Let_def return_eff_def)
  have d: "distinct [error_result 400 msg_missing_id_timestamp, error_result 400 msg_missing_signature,
                error_result 400 msg_missing_type]"
    by (rule header_errors_distinct)
  show ?thesis
    using a b c d
    by (simp only: msg_missing_id_timestamp_def msg_missing_signature_def msg_missing_type_def) blast
qed

theorem C7_header_checks_witness:
  "handleTwitchWebhook test_runtime (\<lambda>h n. Completes) empty_registry
     (mk_request None (Some ''2024-01-01T00:00:00Z'') (Some ''sha256=00'') (Some ''notification'') ''{}'')
     test_options = ([], Inr (error_result 400 msg_missing_id_timestamp))
   \<and> handleTwitchWebhook test_runtime (\<lambda>h n. Completes) empty_registry
     (mk_request (Some ''id-1'') (Some ''2024-01-01T00:00:00Z'') None (Some ''notification'') ''{}'')
     test_options = ([], Inr (error_result 400 msg_missing_signature))
   \<and> handleTwitchWebhook test_runtime (\<lambda>h n. Completes) empty_registry
     (mk_request (Some ''id-1'') (Some ''2024-01-01T00:00:00Z'') (Some ''sha256=00'') None ''{}'')
     test_options = ([], Inr (error_result 400 msg_missing_type))"
  using
    C7_header_checks [of "mk_request None (Some ''2024-01-01T00:00:00Z'') (Some ''sha256=00'') (Some ''notification'') ''{}''"
      test_runtime "\<lambda>h n. Completes" empty_registry test_options]
    C7_header_checks [of "mk_request (Some ''id-1'') (Some ''2024-01-01T00:00:00Z'') None (Some ''notification'') ''{}''"
      test_runtime "\<lambda>h n. Completes" empty_registry test_options]
    C7_header_checks [of "mk_request (Some ''id-1'') (Some ''2024-01-01T00:00:00Z'') (Some ''sha256=00'') None ''{}''"
      test_runtime "\<lambda>h n. Completes" empty_registry test_options]
  by (simp add: mk_request_headers truthy_str_def)

text \<open>
  C5. \<^verbatim>\<open>verifyMessage\<close> on two strings of different byte lengths: the variant of
  \<^verbatim>\<open>src/webhook_handler.ts\<close> catches the exception of \<^verbatim>\<open>timingSafeEqual\<close> and returns
  false (and is true exactly for identical strings, see \<open>verifyMessage_iff\<close>); the variant
  of the unnamed copy has no \<^verbatim>\<open>try/catch\<close> and the RangeError leaves it.
\<close>

theorem C5_verifyMessage_part000_raises:
  "verifyMessage_part000 ''sha256=ab'' ''sha256=a'' = Inl RangeError
   \<and> verifyMessage ''sha256=ab'' ''sha256=a'' = False"
  by (simp add: verifyMessage_part000_def verifyMessage_def timingSafeEqual_def Buffer_from_def)

text \<open>
  C6. With the four required headers there, a body that does not parse as JSON gives 400
  with the error \<^verbatim>\<open>Invalid JSON body\<close>, whatever the signature header holds. A result
  with status 401 is only ever returned when the body parsed. When the body parsed, the
  signature header is compared with \<^verbatim>\<open>sha256=\<close> followed by the HMAC of message id,
  timestamp and the raw body text: a different header gives 401, an equal one reaches the
  switch on the message type.
\<close>

theorem C6_parse_before_signature:
  assumes "req_headers req ''twitch-eventsub-message-id'' = Some mid" "mid \<noteq> []"
    and "req_headers req ''twitch-eventsub-message-timestamp'' = Some ts" "ts \<noteq> []"
    and "req_headers req ''twitch-eventsub-message-signature'' = Some sg" "sg \<noteq> []"
    and "req_headers req ''twitch-eventsub-message-type'' = Some mt" "mt \<noteq> []"
  shows
  "(JSON_parse rt (req_text req) = None \<longrightarrow>
      handleTwitchWebhook rt behave reg req opts = ([], Inr (error_result 400 ''Invalid JSON body'')) \<and>
      handleTwitchWebhook_part000 rt behave reg req opts = ([], Inr (error_result 400 ''Invalid JSON body'')))
   \<and> (\<forall>r. (snd (handleTwitchWebhook rt behave reg req opts) = Inr r \<or>
            snd (handleTwitchWebhook_part000 rt behave reg req opts) = Inr r) \<and> status r = 401 \<longrightarrow>
          JSON_parse rt (req_text req) \<noteq> None)
   \<and> (\<forall>bodyJson. JSON_parse rt (req_text req) = Some bodyJson \<longrightarrow>
        (if sg = ''sha256='' @ hmac_sha256_hex rt (secret opts) (mid @ ts @ req_text req)
         then handleTwitchWebhook rt behave reg req opts =
                switch_messageType rt behave reg
                  (case handlers opts of None \<Rightarrow> empty_object rt | Some h \<Rightarrow> h) mt bodyJson
         else handleTwitchWebhook rt behave reg req opts =
                ([], Inr (error_result 401 ''Invalid signature''))))"
proof -
  have a: "JSON_parse rt (req_text req) = None \<Longrightarrow>
      handleTwitchWebhook rt behave reg req opts = ([], Inr (error_result 400 ''Invalid JSON body'')) \<and>
      handleTwitchWebhook_part000 rt behave reg req opts = ([], Inr (error_result 400 ''Invalid JSON body''))"
    by (simp add: handle_after_headers [OF assms] handle_part000_after_headers [OF assms]
        return_eff_def)
  have b: "JSON_parse rt (req_text req) \<noteq> None"
    if "snd (handleTwitchWebhook rt behave reg req opts) = Inr r \<or>
        snd (handleTwitchWebhook_part000 rt behave reg req opts) = Inr r" "status r = 401" for r
  proof
    assume n: "JSON_parse rt (req_text req) = None"
    from parse_failure_is_400 [OF n, of behave reg opts] that show False
      by auto
  qed
  have c: "(if sg = ''sha256='' @ hmac_sha256_hex rt (secret opts) (mid @ ts @ req_text req)
         then handleTwitchWebhook rt behave reg req opts =
                switch_messageType rt behave reg
                  (case handlers opts of None \<Rightarrow> empty_object rt | Some h \<Rightarrow> h) mt bodyJson
         else handleTwitchWebhook rt behave reg req opts =
                ([], Inr (error_result 401 ''Invalid signature'')))"
    if "JSON_parse rt (req_text req) = Some bodyJson" for bodyJson
    using that
    by (auto simp: handle_after_headers [OF assms] verifyMessage_iff valid_signature_def
        return_eff_def)
  from a b c show ?thesis by blast
qed

theorem C6_parse_before_signature_witness:
  "handleTwitchWebhook test_runtime (\<lambda>h n. Completes) empty_registry
     (mk_request (Some ''id-1'') (Some ''2024-01-01T00:00:00Z'') (Some ''sha256=00'')
        (Some ''notification'') ''{not json'')
     test_options = ([], Inr (error_result 400 ''Invalid JSON body''))
   \<and> handleTwitchWebhook test_runtime (\<lambda>h n. Completes) empty_registry
     (mk_request (Some ''id-1'') (Some ''2024-01-01T00:00:00Z'') (Some ''sha256=00'')
        (Some ''notification'') ''{}'')
     test_options = ([], Inr (error_result 401 ''Invalid signature''))"
  using
    C6_parse_before_signature [of
      "mk_request (Some ''id-1'') (Some ''2024-01-01T00:00:00Z'') (Some ''sha256=00'')
        (Some ''notification'') ''{not json''"
      "''id-1''" "''2024-01-01T00:00:00Z''" "''sha256=00''" "''notification''"
      test_runtime "\<lambda>h n. Completes" empty_registry test_options]
    C6_parse_before_signature [of
      "mk_request (Some ''id-1'') (Some ''2024-01-01T00:00:00Z'') (Some ''sha256=00'')
        (Some ''notification'') ''{}''"
      "''id-1''" "''2024-01-01T00:00:00Z''" "''sha256=00''" "''notification''"
      test_runtime "\<lambda>h n. Completes" empty_registry test_options]
  by (simp add: mk_request_headers test_runtime_simps test_parse_def txt_challenge_def
      txt_follow_def txt_type_def dquote_def)

text \<open>
  C1. A request with the four headers, a body that parses, a valid signature and the
  message type \<^verbatim>\<open>revocation\<close>: the handler of \<^verbatim>\<open>src/webhook_handler.ts\<close> has no case for it
  and answers 400 with \<^verbatim>\<open>Invalid message type: revocation\<close>; the handler of the unnamed
  copy answers 204 (\<open>revocation_results\<close> has both for every such request).
\<close>

theorem C1_revocation_rejected:
  "handleTwitchWebhook test_runtime (\<lambda>h n. Completes) empty_registry
     (mk_request (Some ''id-1'') (Some ''2024-01-01T00:00:00Z'')
        (Some ''sha256=0123456789abcdef0123456789abcdef0123456789abcdef0123456789abcdef'')
        (Some ''revocation'') ''{}'')
     test_options = ([], Inr (error_result 400 ''Invalid message type: revocation''))
   \<and> status (error_result 400 ''Invalid message type: revocation'') = 400
   \<and> handleTwitchWebhook_part000 test_runtime (\<lambda>h n. Completes) empty_registry
     (mk_request (Some ''id-1'') (Some ''2024-01-01T00:00:00Z'')
        (Some ''sha256=0123456789abcdef0123456789abcdef0123456789abcdef0123456789abcdef'')
        (Some ''revocation'') ''{}'')
     test_options = ([], Inr (mk_result 204 None None))"
proof -
  let ?req = "mk_request (Some ''id-1'') (Some ''2024-01-01T00:00:00Z'')
        (Some ''sha256=0123456789abcdef0123456789abcdef0123456789abcdef0123456789abcdef'')
        (Some ''revocation'') ''{}''"
  have p: "JSON_parse test_runtime (req_text ?req) = Some (JObj [])"
    by (simp add: mk_request_headers test_runtime_simps test_parse_def)
  have s: "req_headers ?req ''twitch-eventsub-message-signature'' =
      Some (valid_signature test_runtime (secret test_options) ''id-1'' ''2024-01-01T00:00:00Z''
              (req_text ?req))"
    by (simp add: mk_request_headers test_runtime_simps test_valid_signature)
  have i: "req_headers ?req ''twitch-eventsub-message-id'' = Some ''id-1''"
    and t: "req_headers ?req ''twitch-eventsub-message-timestamp'' = Some ''2024-01-01T00:00:00Z''"
    and m: "req_headers ?req ''twitch-eventsub-message-type'' = Some ''revocation''"
    by (simp_all add: mk_request_headers)
  have n: "''id-1'' \<noteq> []" "''2024-01-01T00:00:00Z'' \<noteq> []" by simp_all
  from revocation_results [OF i n(1) t n(2) s m p] show ?thesis
    by simp
qed

theorem C1_revocation_rejected_witness:
  "map_sum id status (snd (handleTwitchWebhook test_runtime (\<lambda>h n. Completes) empty_registry
     (mk_request (Some ''id-1'') (Some ''2024-01-01T00:00:00Z'')
        (Some ''sha256=0123456789abcdef0123456789abcdef0123456789abcdef0123456789abcdef'')
        (Some ''revocation'') ''{}'')
     test_options)) = Inr 400"
  using C1_revocation_rejected by simp

text \<open>
  C10. A validly signed \<^verbatim>\<open>webhook_callback_verification\<close> request whose parsed body is an
  object with a \<^verbatim>\<open>challenge\<close> field holding the empty string, 0, \<^verbatim>\<open>false\<close> or \<^verbatim>\<open>null\<close> gives
  400 with the error \<^verbatim>\<open>Missing challenge in verification request\<close>: the test is
  \<^verbatim>\<open>!challenge\<close>, not the existence of the key.
\<close>

theorem C10_falsy_challenge:
  assumes "req_headers req ''twitch-eventsub-message-id'' = Some mid" "mid \<noteq> []"
    and "req_headers req ''twitch-eventsub-message-timestamp'' = Some ts" "ts \<noteq> []"
    and "req_headers req ''twitch-eventsub-message-signature'' =
           Some (valid_signature rt (secret opts) mid ts (req_text req))"
    and "req_headers req ''twitch-eventsub-message-type'' = Some ''webhook_callback_verification''"
    and "JSON_parse rt (req_text req) = Some (JObj kvs)"
    and "map_of (rev kvs) ''challenge'' = Some v"
    and "v = JStr [] \<or> v = JNum 0 \<or> v = JBool False \<or> v = JNull"
  shows "handleTwitchWebhook rt behave reg req opts =
           ([], Inr (error_result 400 ''Missing challenge in verification request''))
     \<and> handleTwitchWebhook_part000 rt behave reg req opts =
           ([], Inr (error_result 400 ''Missing challenge in verification request''))"
proof -
  have g: "get_prop (Some (JObj kvs)) ''challenge'' = Inr (Some v)"
    using assms(8) by simp
  have f: "\<not> truthy (Some v)"
    using assms(9) by auto
  show ?thesis
    using f
    by (simp add: verification_results [OF assms(1-7)] verification_case_challenge [OF g])
qed

theorem C10_falsy_challenge_witness:
  "handleTwitchWebhook test_runtime (\<lambda>h n. Completes) empty_registry
     (mk_request (Some ''id-1'') (Some ''2024-01-01T00:00:00Z'')
        (Some ''sha256=0123456789abcdef0123456789abcdef0123456789abcdef0123456789abcdef'')
        (Some ''webhook_callback_verification'') (txt_challenge ''0''))
     test_options = ([], Inr (error_result 400 ''Missing challenge in verification request''))
   \<and> handleTwitchWebhook test_runtime (\<lambda>h n. Completes) empty_registry
     (mk_request (Some ''id-1'') (Some ''2024-01-01T00:00:00Z'')
        (Some ''sha256=0123456789abcdef0123456789abcdef0123456789abcdef0123456789abcdef'')
        (Some ''webhook_callback_verification'') (txt_challenge ''null''))
     test_options = ([], Inr (error_result 400 ''Missing challenge in verification request''))"
proof -
  have a: "JSON_parse test_runtime (req_text (mk_request (Some ''id-1'') (Some ''2024-01-01T00:00:00Z'')
        (Some ''sha256=0123456789abcdef0123456789abcdef0123456789abcdef0123456789abcdef'')
        (Some ''webhook_callback_verification'') (txt_challenge ''0''))) =
      Some (JObj [(''challenge'', JNum 0)])"
    by (simp add: mk_request_headers test_runtime_simps test_parse_simps)
  have b: "JSON_parse test_runtime (req_text (mk_request (Some ''id-1'') (Some ''2024-01-01T00:00:00Z'')
        (Some ''sha256=0123456789abcdef0123456789abcdef0123456789abcdef0123456789abcdef'')
        (Some ''webhook_callback_verification'') (txt_challenge ''null''))) =
      Some (JObj [(''challenge'', JNull)])"
    by (simp add: mk_request_headers test_runtime_simps test_parse_simps)
  have m0: "map_of (rev [(''challenge'', JNum 0)]) ''challenge'' = Some (JNum 0)" by simp
  have m1: "map_of (rev [(''challenge'', JNull)]) ''challenge'' = Some JNull" by simp
  have v0: "JNum 0 = JStr [] \<or> JNum 0 = JNum 0 \<or> JNum 0 = JBool False \<or> JNum 0 = JNull" by simp
  have v1: "JNull = JStr [] \<or> JNull = JNum 0 \<or> JNull = JBool False \<or> JNull = JNull" by simp
  from C10_falsy_challenge [OF test_request_facts a m0 v0, of "\<lambda>h n. Completes" empty_registry]
    C10_falsy_challenge [OF test_request_facts b m1 v1, of "\<lambda>h n. Completes" empty_registry]
  show ?thesis by simp
qed

text \<open>
  C8, as stated, fails: a validly signed verification request whose body is
  \<^verbatim>\<open>{"challenge":""}\<close> has a challenge string, yet the answer is 400, not 200 with the
  (empty) challenge as body.
\<close>

theorem C8_empty_challenge_counterexample:
  "JSON_parse test_runtime (txt_challenge (dquote [])) = Some (JObj [(''challenge'', JStr [])])
   \<and> get_prop (Some (JObj [(''challenge'', JStr [])])) ''challenge'' = Inr (Some (JStr []))
   \<and> handleTwitchWebhook test_runtime (\<lambda>h n. Completes) empty_registry
     (mk_request (Some ''id-1'') (Some ''2024-01-01T00:00:00Z'')
        (Some ''sha256=0123456789abcdef0123456789abcdef0123456789abcdef0123456789abcdef'')
        (Some ''webhook_callback_verification'') (txt_challenge (dquote [])))
     test_options = ([], Inr (error_result 400 ''Missing challenge in verification request''))
   \<and> status (error_result 400 ''Missing challenge in verification request'') \<noteq> 200"
proof -
  have a: "JSON_parse test_runtime (req_text (mk_request (Some ''id-1'') (Some ''2024-01-01T00:00:00Z'')
        (Some ''sha256=0123456789abcdef0123456789abcdef0123456789abcdef0123456789abcdef'')
        (Some ''webhook_callback_verification'') (txt_challenge (dquote [])))) =
      Some (JObj [(''challenge'', JStr [])])"
    by (simp add: mk_request_headers test_runtime_simps test_parse_simps)
  have g: "get_prop (Some (JObj [(''challenge'', JStr [])])) ''challenge'' = Inr (Some (JStr []))"
    by simp
  from verification_results(1) [OF test_request_facts a, of "\<lambda>h n. Completes" empty_registry]
    verification_case_challenge [OF g]
  show ?thesis
    by (simp add: test_runtime_simps test_parse_simps)
qed

text \<open>
  C8, amended. For a validly signed \<^verbatim>\<open>webhook_callback_verification\<close> request whose body
  parses to a value with a readable \<^verbatim>\<open>challenge\<close> property (any value but \<^verbatim>\<open>null\<close>): a
  non-empty challenge string gives status 200, the header \<^verbatim>\<open>content-type: text/plain\<close> and
  the challenge string itself as body; an absent challenge gives 400 with the error
  \<^verbatim>\<open>Missing challenge in verification request\<close>. Both variants of the handler do this.
\<close>

theorem C8_challenge_echo:
  assumes "req_headers req ''twitch-eventsub-message-id'' = Some mid" "mid \<noteq> []"
    and "req_headers req ''twitch-eventsub-message-timestamp'' = Some ts" "ts \<noteq> []"
    and "req_headers req ''twitch-eventsub-message-signature'' =
           Some (valid_signature rt (secret opts) mid ts (req_text req))"
    and "req_headers req ''twitch-eventsub-message-type'' = Some ''webhook_callback_verification''"
    and "JSON_parse rt (req_text req) = Some bodyJson"
    and "bodyJson \<noteq> JNull"
  shows
    "(\<forall>s. get_prop (Some bodyJson) ''challenge'' = Inr (Some (JStr s)) \<and> s \<noteq> [] \<longrightarrow>
        handleTwitchWebhook rt behave reg req opts =
          ([], Inr \<lparr>status = 200, headers = Some [(''content-type'', ''text/plain'')],
                    body = Some (JStr s)\<rparr>) \<and>
        handleTwitchWebhook_part000 rt behave reg req opts =
          ([], Inr \<lparr>status = 200, headers = Some [(''content-type'', ''text/plain'')],
                    body = Some (JStr s)\<rparr>))
     \<and> (get_prop (Some bodyJson) ''challenge'' = Inr None \<longrightarrow>
        handleTwitchWebhook rt behave reg req opts =
          ([], Inr (error_result 400 ''Missing challenge in verification request'')) \<and>
        handleTwitchWebhook_part000 rt behave reg req opts =
          ([], Inr (error_result 400 ''Missing challenge in verification request'')))
     \<and> (\<exists>ch. get_prop (Some bodyJson) ''challenge'' = Inr ch)"
proof -
  have r: "\<exists>ch. get_prop (Some bodyJson) ''challenge'' = Inr ch"
    using assms(8) by (cases bodyJson) simp_all
  show ?thesis
    using r
    by (auto simp: verification_results [OF assms(1-7)] verification_case_challenge mk_result_def)
qed

theorem C8_challenge_echo_witness:
  "handleTwitchWebhook test_runtime (\<lambda>h n. Completes) empty_registry
     (mk_request (Some ''id-1'') (Some ''2024-01-01T00:00:00Z'')
        (Some ''sha256=0123456789abcdef0123456789abcdef0123456789abcdef0123456789abcdef'')
        (Some ''webhook_callback_verification'') (txt_challenge (dquote ''abc123'')))
     test_options =
       ([], Inr \<lparr>status = 200, headers = Some [(''content-type'', ''text/plain'')],
                 body = Some (JStr ''abc123'')\<rparr>)
   \<and> handleTwitchWebhook test_runtime (\<lambda>h n. Completes) empty_registry
     (mk_request (Some ''id-1'') (Some ''2024-01-01T00:00:00Z'')
        (Some ''sha256=0123456789abcdef0123456789abcdef0123456789abcdef0123456789abcdef'')
        (Some ''webhook_callback_verification'') ''{}'')
     test_options = ([], Inr (error_result 400 ''Missing challenge in verification request''))"
proof -
  have a: "JSON_parse test_runtime (req_text (mk_request (Some ''id-1'') (Some ''2024-01-01T00:00:00Z'')
        (Some ''sha256=0123456789abcdef0123456789abcdef0123456789abcdef0123456789abcdef'')
        (Some ''webhook_callback_verification'') (txt_challenge (dquote ''abc123'')))) =
      Some (JObj [(''challenge'', JStr ''abc123'')])"
    by (simp add: mk_request_headers test_runtime_simps test_parse_simps)
  have b: "JSON_parse test_runtime (req_text (mk_request (Some ''id-1'') (Some ''2024-01-01T00:00:00Z'')
        (Some ''sha256=0123456789abcdef0123456789abcdef0123456789abcdef0123456789abcdef'')
        (Some ''webhook_callback_verification'') ''{}'')) = Some (JObj [])"
    by (simp add: mk_request_headers test_runtime_simps test_parse_simps)
  have n: "JObj [(''challenge'', JStr ''abc123'')] \<noteq> JNull" "JObj [] \<noteq> JNull" by simp_all
  from C8_challenge_echo [OF test_request_facts a n(1), of "\<lambda>h n. Completes" empty_registry]
    C8_challenge_echo [OF test_request_facts b n(2), of "\<lambda>h n. Completes" empty_registry]
  show ?thesis by simp
qed

text \<open>
  C2. The closure returned by \<^verbatim>\<open>on\<close> keeps the \<^verbatim>\<open>Set\<close> it added its handler to. Once that
  set has become empty and the key was removed, a later \<^verbatim>\<open>on\<close> for the same key makes a
  new set; the old closure, called again, finds its own set empty and deletes the key,
  and with it the registration made in between. Here: \<^verbatim>\<open>u = on('channel.follow', h1); u();
  on('channel.follow', h2); u()\<close>, with the handlers \<open>h1 = 1\<close> and \<open>h2 = 2\<close>.
\<close>

theorem C2_stale_unsubscribe_removes_later_registration:
  "(let u = fst (on ''channel.follow'' 1 empty_registry);
        reg1 = snd (on ''channel.follow'' 1 empty_registry);
        reg2 = call_unsubscribe u reg1;
        reg3 = snd (on ''channel.follow'' 2 reg2);
        reg4 = call_unsubscribe u reg3
    in registry_get reg1 ''channel.follow'' = Some [1]
       \<and> registry_get reg2 ''channel.follow'' = None
       \<and> registry_get reg3 ''channel.follow'' = Some [2]
       \<and> registry_get reg4 ''channel.follow'' = None
       \<and> reg4 \<noteq> reg3)"
proof -
  define k where "k = ''channel.follow''"
  define reg1 where "reg1 = \<lparr>eventHandlers = (\<lambda>x. None)(k := Some 0), sets = (\<lambda>r. [])(0 := [1]),
    next_ref = Suc 0\<rparr>"
  define reg2 where "reg2 = \<lparr>eventHandlers = (\<lambda>x. None)(k := Some 0, k := None),
    sets = (\<lambda>r. [])(0 := [1], 0 := []), next_ref = Suc 0\<rparr>"
  define reg3 where "reg3 = \<lparr>eventHandlers = (eventHandlers reg2)(k := Some (Suc 0)),
    sets = (sets reg2)(Suc 0 := [], Suc 0 := [2]), next_ref = Suc (Suc 0)\<rparr>"
  define reg4 where "reg4 = \<lparr>eventHandlers = (eventHandlers reg3)(k := None),
    sets = (sets reg3)(0 := []), next_ref = Suc (Suc 0)\<rparr>"
  have s1: "on k 1 empty_registry = (Unsubscribe 0 k 1, reg1)"
    by (simp add: on_def empty_registry_def Let_def set_add_def reg1_def)
  have s2: "call_unsubscribe (Unsubscribe 0 k 1) reg1 = reg2"
    by (simp add: reg1_def reg2_def set_delete_def)
  have s3: "on k 2 reg2 = (Unsubscribe (Suc 0) k 2, reg3)"
    by (simp add: on_def Let_def set_add_def reg2_def reg3_def)
  have s4: "call_unsubscribe (Unsubscribe 0 k 1) reg3 = reg4"
    by (simp add: reg2_def reg3_def reg4_def set_delete_def)
  have g1: "registry_get reg1 k = Some [1]"
    by (simp add: registry_get_def reg1_def)
  have g2: "registry_get reg2 k = None"
    by (simp add: registry_get_def reg2_def)
  have g3: "registry_get reg3 k = Some [2]"
    by (simp add: registry_get_def reg3_def)
  have g4: "registry_get reg4 k = None"
    by (simp add: registry_get_def reg4_def)
  have ne: "reg4 \<noteq> reg3"
    using g3 g4 by auto
  show ?thesis
    unfolding Let_def k_def [symmetric] s1 fst_conv snd_conv s2 s3 s4
    using g1 g2 g3 g4 ne by blast
qed

text \<open>
  C4. The first hexadecimal digit of a valid signature is replaced by the character
  \<^verbatim>\<open>U+00E9\<close>, which a header value can hold and which is two bytes in UTF-8 (\<open>0xC3 0xA9\<close>):
  the strings have the same number of characters, the buffers have different lengths. The
  handler of \<^verbatim>\<open>src/webhook_handler.ts\<close> answers 401 with the error \<^verbatim>\<open>Invalid signature\<close>, as
  it does for every change of one character (\<open>one_character_change\<close>); the handler of the
  unnamed copy is left by the RangeError of \<^verbatim>\<open>timingSafeEqual\<close>, which its \<^verbatim>\<open>verifyMessage\<close>
  does not catch.
\<close>

theorem C4_changed_character_part000_raises:
  "handleTwitchWebhook_part000 test_runtime (\<lambda>h n. Completes) empty_registry
     (mk_request (Some ''id-1'') (Some ''2024-01-01T00:00:00Z'')
        (Some (''sha256='' @ [CHR 0xC3, CHR 0xA9] @
               ''123456789abcdef0123456789abcdef0123456789abcdef0123456789abcdef''))
        (Some ''notification'') ''{}'')
     test_options = ([], Inl RangeError)
   \<and> handleTwitchWebhook test_runtime (\<lambda>h n. Completes) empty_registry
     (mk_request (Some ''id-1'') (Some ''2024-01-01T00:00:00Z'')
        (Some (''sha256='' @ [CHR 0xC3, CHR 0xA9] @
               ''123456789abcdef0123456789abcdef0123456789abcdef0123456789abcdef''))
        (Some ''notification'') ''{}'')
     test_options = ([], Inr (error_result 401 ''Invalid signature''))"
proof -
  let ?req = "mk_request (Some ''id-1'') (Some ''2024-01-01T00:00:00Z'')
        (Some (''sha256='' @ [CHR 0xC3, CHR 0xA9] @
               ''123456789abcdef0123456789abcdef0123456789abcdef0123456789abcdef''))
        (Some ''notification'') ''{}''"
  let ?v = "valid_signature test_runtime (secret test_options) ''id-1'' ''2024-01-01T00:00:00Z''
        (req_text ?req)"
  have v: "?v = ''sha256=0123456789abcdef0123456789abcdef0123456789abcdef0123456789abcdef''"
    by (simp add: test_runtime_simps test_valid_signature)
  have s: "req_headers ?req ''twitch-eventsub-message-signature'' =
      Some (take 7 ?v @ [CHR 0xC3, CHR 0xA9] @ drop (Suc 7) ?v)"
    unfolding v by (simp add: mk_request_headers)
  have p: "JSON_parse test_runtime (req_text ?req) = Some (JObj [])"
    by (simp add: mk_request_headers test_runtime_simps test_parse_simps)
  have i: "7 < length ?v" unfolding v by simp
  have e: "[CHR 0xC3, CHR 0xA9] \<noteq> []" "[CHR 0xC3, CHR 0xA9] \<noteq> [?v ! 7]" by simp_all
  have hd: "req_headers ?req ''twitch-eventsub-message-id'' = Some ''id-1''"
      "req_headers ?req ''twitch-eventsub-message-timestamp'' = Some ''2024-01-01T00:00:00Z''"
      "req_headers ?req ''twitch-eventsub-message-type'' = Some ''notification''"
    by (simp_all add: mk_request_headers)
  have n: "''id-1'' \<noteq> []" "''2024-01-01T00:00:00Z'' \<noteq> []" "''notification'' \<noteq> []"
    by simp_all
  from one_character_change [OF hd(1) n(1) hd(2) n(2) s hd(3) n(3) p i e,
      of "\<lambda>h n. Completes" empty_registry]
  show ?thesis by simp
qed

theorem C4_changed_character_part000_raises_witness:
  "snd (handleTwitchWebhook_part000 test_runtime (\<lambda>h n. Completes) empty_registry
     (mk_request (Some ''id-1'') (Some ''2024-01-01T00:00:00Z'')
        (Some (''sha256='' @ [CHR 0xC3, CHR 0xA9] @
               ''123456789abcdef0123456789abcdef0123456789abcdef0123456789abcdef''))
        (Some ''notification'') ''{}'')
     test_options) = Inl RangeError"
  using C4_changed_character_part000_raises by simp







end
